theory Spec2Isabelle
  imports Complex_Main
begin

section \<open>Python strings\<close>

text \<open>
  A string is the list of its characters, and a character is a code point from 0 to
  255: the text that the octets of an HTTP header give when they are decoded as
  ISO-8859-1. The methods of \<open>str\<close> that the controller calls are modelled on
  these code points. \<open>str.isspace()\<close> holds for 9 to 13, 28 to 32, 133 and 160, and
  \<open>str.strip()\<close> removes such characters at both ends.
\<close>

definition is_space :: "char \<Rightarrow> bool" where
  "is_space c =
     (of_char c \<in> set [9, 10, 11, 12, 13, 28, 29, 30, 31, 32, 133, 160 :: nat])"

definition strip :: "string \<Rightarrow> string" where
  "strip s = rev (dropWhile is_space (rev (dropWhile is_space s)))"

text \<open>
  \<open>str.lower()\<close>: the upper-case letters are 65 to 90, 192 to 214 and 216 to 222, and
  the lower-case letter is 32 above (bit 5 of the code is set).
\<close>

definition is_upper :: "char \<Rightarrow> bool" where
  "is_upper c =
     (let n = of_char c :: nat
      in (65 \<le> n \<and> n \<le> 90) \<or> (192 \<le> n \<and> n \<le> 214) \<or> (216 \<le> n \<and> n \<le> 222))"

definition lower_char :: "char \<Rightarrow> char" where
  "lower_char c =
     (if is_upper c
      then (case c of Char b0 b1 b2 b3 b4 b5 b6 b7 \<Rightarrow> Char b0 b1 b2 b3 b4 True b6 b7)
      else c)"

definition lower :: "string \<Rightarrow> string" where
  "lower s = map lower_char s"

text \<open>The decimal digits \<open>0\<close> to \<open>9\<close>, which \<open>int()\<close> reads.\<close>

definition is_digit :: "char \<Rightarrow> bool" where
  "is_digit c = (let n = of_char c :: nat in 48 \<le> n \<and> n \<le> 57)"

definition digit_val :: "char \<Rightarrow> nat" where
  "digit_val c = of_char c - 48"

text \<open>
  \<open>s.isdigit()\<close>: the string is not empty and all its characters are digits. Besides
  \<open>0\<close> to \<open>9\<close> these are the superscripts 178, 179 and 185, which \<open>int()\<close> does
  not read.
\<close>

definition isdigit_char :: "char \<Rightarrow> bool" where
  "isdigit_char c = (is_digit c \<or> of_char c \<in> set [178, 179, 185 :: nat])"

definition isdigit :: "string \<Rightarrow> bool" where
  "isdigit s = (s \<noteq> [] \<and> list_all isdigit_char s)"

text \<open>\<open>s.split(sep)\<close> for a one-character separator: always at least one part.\<close>

fun split_on :: "char \<Rightarrow> string \<Rightarrow> string list" where
  "split_on sep [] = [[]]"
| "split_on sep (c # cs) =
     (if c = sep then [] # split_on sep cs
      else (case split_on sep cs of
              [] \<Rightarrow> [[c]]
            | w # ws \<Rightarrow> (c # w) # ws))"

text \<open>
  \<open>s.split(sep, 1)\<close>: \<open>parts[0]\<close> is the text before the first separator and
  \<open>parts[1]\<close> the text after it; without a separator \<open>parts[1]\<close> raises IndexError,
  which is \<open>None\<close> here.
\<close>

definition split1 :: "char \<Rightarrow> string \<Rightarrow> string \<times> string option" where
  "split1 sep s =
     (takeWhile (\<lambda>c. c \<noteq> sep) s,
      case dropWhile (\<lambda>c. c \<noteq> sep) s of [] \<Rightarrow> None | _ # r \<Rightarrow> Some r)"

text \<open>
  \<open>int(s)\<close> on a string, base 10. White space at both ends is ignored, which for
  \<open>int\<close> is 9 to 13, 32, 133 and 160 (not 28 to 31); then comes an optional sign,
  then digits, where single underscores may stand between two digits. A text of more
  than \<open>int_max_str_digits\<close> digits is refused (the interpreter's default limit).
  \<open>None\<close> is ValueError.
\<close>

definition int_space :: "char \<Rightarrow> bool" where
  "int_space c = (of_char c \<in> set [9, 10, 11, 12, 13, 32, 133, 160 :: nat])"

definition int_max_str_digits :: nat where
  "int_max_str_digits = 4300"

fun int_digits :: "nat \<Rightarrow> string \<Rightarrow> nat option" where
  "int_digits acc [] = Some acc"
| "int_digits acc [c] = (if is_digit c then Some (10 * acc + digit_val c) else None)"
| "int_digits acc (c # d # ds) =
     (if is_digit c then int_digits (10 * acc + digit_val c) (d # ds)
      else if c = CHR ''_'' \<and> is_digit d then int_digits (10 * acc + digit_val d) ds
      else None)"

definition int_unsigned :: "string \<Rightarrow> int option" where
  "int_unsigned s =
     (case s of
        [] \<Rightarrow> None
      | c # cs \<Rightarrow>
          if is_digit c \<and> length (filter is_digit s) \<le> int_max_str_digits
          then map_option int (int_digits (digit_val c) cs)
          else None)"

definition py_int :: "string \<Rightarrow> int option" where
  "py_int s =
     (case rev (dropWhile int_space (rev (dropWhile int_space s))) of
        [] \<Rightarrow> None
      | c # cs \<Rightarrow>
          if c = CHR ''-'' then map_option uminus (int_unsigned cs)
          else if c = CHR ''+'' then int_unsigned cs
          else int_unsigned (c # cs))"

section \<open>Headers\<close>

text \<open>
  Modelled from the spec: the header mapping type is not part of the sources. It is a
  case-insensitive mapping from header names to values, kept here as the list of its
  \<open>items()\<close>; a lookup compares lower-cased names.
\<close>

type_synonym headers = "(string \<times> string) list"

definition hget :: "headers \<Rightarrow> string \<Rightarrow> string option" where
  "hget hs k = map_of (map (\<lambda>(n, v). (lower n, v)) hs) (lower k)"

text \<open>\<open>k in headers\<close>\<close>

definition hmem :: "string \<Rightarrow> headers \<Rightarrow> bool" where
  "hmem k hs = (hget hs k \<noteq> None)"

text \<open>\<open>headers.get(k, d)\<close>\<close>

definition hget_default :: "headers \<Rightarrow> string \<Rightarrow> string \<Rightarrow> string" where
  "hget_default hs k d = (case hget hs k of None \<Rightarrow> d | Some v \<Rightarrow> v)"

text \<open>\<open>headers[k] = v\<close>: replaces the value of a name that is present, else appends.\<close>

fun hset :: "headers \<Rightarrow> string \<Rightarrow> string \<Rightarrow> headers" where
  "hset [] k v = [(k, v)]"
| "hset ((n, w) # hs) k v =
     (if lower n = lower k then (k, v) # filter (\<lambda>(m, _). lower m \<noteq> lower k) hs
      else (n, w) # hset hs k v)"

text \<open>\<open>headers.update(d)\<close>: sets every item of \<open>d\<close>, in order.\<close>

definition hupdate :: "headers \<Rightarrow> (string \<times> string) list \<Rightarrow> headers" where
  "hupdate hs d = foldl (\<lambda>h (k, v). hset h k v) hs d"

text \<open>\<open>dict(pairs)\<close>: a later pair replaces the value of an equal key, in its place.\<close>

fun dict_set :: "(string \<times> string) list \<Rightarrow> string \<Rightarrow> string \<Rightarrow> (string \<times> string) list" where
  "dict_set [] k v = [(k, v)]"
| "dict_set ((n, w) # d) k v = (if n = k then (n, v) # d else (n, w) # dict_set d k v)"

definition dict_of :: "(string \<times> string) list \<Rightarrow> (string \<times> string) list" where
  "dict_of ps = foldl (\<lambda>d (k, v). dict_set d k v) [] ps"

section \<open>Cache-Control directives\<close>

text \<open>
  The declared type of a directive's value is \<open>int\<close> or \<open>None\<close>; a directive set maps
  a directive name to \<open>None\<close> (recorded without a value) or to an integer.
\<close>

datatype value_type = IntTyp

type_synonym directives = "string \<rightharpoonup> int option"

text \<open>\<open>k in cc\<close>\<close>

definition dmem :: "string \<Rightarrow> directives \<Rightarrow> bool" where
  "dmem k cc = (cc k \<noteq> None)"

definition known_directives :: "string \<rightharpoonup> (value_type option \<times> bool)" where
  "known_directives = map_of
     [(''max-age'', (Some IntTyp, True)),
      (''max-stale'', (Some IntTyp, False)),
      (''min-fresh'', (Some IntTyp, True)),
      (''no-cache'', (None, False)),
      (''no-store'', (None, False)),
      (''no-transform'', (None, False)),
      (''only-if-cached'', (None, False)),
      (''must-revalidate'', (None, False)),
      (''public'', (None, False)),
      (''private'', (None, False)),
      (''proxy-revalidate'', (None, False)),
      (''s-maxage'', (Some IntTyp, True))]"

fun apply_typ :: "value_type \<Rightarrow> string \<Rightarrow> int option" where
  "apply_typ IntTyp s = py_int s"

text \<open>The name a segment of the header is looked up under: \<open>parts[0].strip()\<close>.\<close>

definition directive_name :: "string \<Rightarrow> string" where
  "directive_name cc_directive = strip (fst (split1 CHR ''='' cc_directive))"

text \<open>One round of the loop of \<open>parse_cache_control\<close>, on the segment \<open>cc_directive\<close>.\<close>

definition parse_directive :: "directives \<Rightarrow> string \<Rightarrow> directives" where
  "parse_directive retval cc_directive =
     (if strip cc_directive = [] then retval
      else
        let parts = split1 CHR ''='' cc_directive;
            directive = strip (fst parts)
        in case known_directives directive of
             None \<Rightarrow> retval
           | Some (ty, required) \<Rightarrow>
               let retval1 = (if ty = None \<or> \<not> required
                              then retval(directive := Some None) else retval)
               in (case ty of
                     None \<Rightarrow> retval1
                   | Some t \<Rightarrow>
                       (case snd parts of
                          None \<Rightarrow> retval1
                        | Some p \<Rightarrow>
                            (case apply_typ t (strip p) of
                               None \<Rightarrow> retval1
                             | Some n \<Rightarrow> retval1(directive := Some (Some n))))))"

definition parse_segments :: "string list \<Rightarrow> directives" where
  "parse_segments segs = foldl parse_directive Map.empty segs"

definition parse_cache_control :: "headers \<Rightarrow> directives" where
  "parse_cache_control hs =
     parse_segments (split_on CHR '','' (hget_default hs ''cache-control'' ''''))"

text \<open>
  What the directive table says a segment records, in words: nothing under an unknown
  name; a directive without a declared type under its name, without a value; a
  directive with a declared type under its name with the value read from the text
  after \<open>=\<close>, and when there is no such text or it cannot be read, nothing if the
  value is required and the name without a value if it is optional.
\<close>

definition segment_value :: "string \<Rightarrow> int option" where
  "segment_value cc_directive =
     (case snd (split1 CHR ''='' cc_directive) of
        None \<Rightarrow> None
      | Some p \<Rightarrow> py_int (strip p))"

definition spec_recorded :: "string \<Rightarrow> (string \<times> int option) option" where
  "spec_recorded cc_directive =
     (case known_directives (directive_name cc_directive) of
        None \<Rightarrow> None
      | Some (None, required) \<Rightarrow> Some (directive_name cc_directive, None)
      | Some (Some t, required) \<Rightarrow>
          (case segment_value cc_directive of
             Some n \<Rightarrow> Some (directive_name cc_directive, Some n)
           | None \<Rightarrow>
               if required then None else Some (directive_name cc_directive, None)))"

text \<open>The segments that record something under the name \<open>k\<close>.\<close>

definition recording :: "string \<Rightarrow> string list \<Rightarrow> string list" where
  "recording k segs = filter (\<lambda>s. map_option fst (spec_recorded s) = Some k) segs"

definition spec_lookup :: "string list \<Rightarrow> string \<Rightarrow> int option option" where
  "spec_lookup segs k =
     (case rev (recording k segs) of
        [] \<Rightarrow> None
      | s # _ \<Rightarrow> map_option snd (spec_recorded s))"

section \<open>The controller's collaborators\<close>

datatype error =
    Exception string
  | NameError string
  | TypeError string
  | ValueError string

text \<open>
  Modelled from the spec: the URL type is not part of the sources. A URL has a scheme,
  an authority and the rest (path and query); \<open>str(uri)\<close> joins them.
\<close>

record uri =
  scheme :: string
  authority :: string
  path :: string

definition str_uri :: "uri \<Rightarrow> string" where
  "str_uri u = scheme u @ ''://'' @ authority u @ path u"

text \<open>
  A deserialized cache entry: what \<open>serializer.loads\<close> returns. \<open>cached_request\<close>
  reads its \<open>status\<close>, \<open>conditional_headers\<close> its \<open>headers\<close>, and
  \<open>update_cached_response\<close> unpacks all five components.
\<close>

record response =
  http_version :: string
  status :: int
  reason_phrase :: string
  headers :: headers
  body :: string

text \<open>
  Modelled from the spec: the serializer (\<open>.serialize\<close>) is not part of the sources.
  \<open>loads(request_headers, data)\<close> gives an entry or \<open>None\<close>, also when \<open>data\<close> is
  \<open>None\<close>; \<open>dumps(request_headers, response_headers, status, version, reason, body)\<close>
  gives the bytes to store.
\<close>

record serializer =
  loads :: "headers \<Rightarrow> string option \<Rightarrow> response option"
  dumps :: "headers \<Rightarrow> headers \<Rightarrow> int \<Rightarrow> string \<Rightarrow> string \<Rightarrow> string option \<Rightarrow> string"

text \<open>
  Modelled from the spec: the backend (\<open>.cache\<close>) is not part of the sources. It maps
  keys to stored bytes: \<open>get(key)\<close> is \<open>cache key\<close>, \<open>set(key, value)\<close> is
  \<open>cache(key := Some value)\<close> and \<open>delete(key)\<close> is \<open>cache(key := None)\<close>.
\<close>

type_synonym backend = "string \<rightharpoonup> string"

text \<open>The truth value of what \<open>cache.get\<close> returns: \<open>None\<close> and empty bytes are false.\<close>

fun truthy :: "string option \<Rightarrow> bool" where
  "truthy None = False"
| "truthy (Some data) = (data \<noteq> [])"

text \<open>
  The standard library functions the controller calls are parameters. \<open>time_time\<close>
  is what \<open>time.time()\<close> returns (a float, here a real number of seconds),
  \<open>parsedate_tz\<close> is \<open>email.utils.parsedate_tz\<close> (\<open>None\<close> for a date it cannot
  read) and \<open>timegm\<close> is \<open>calendar.timegm\<close>, from a time tuple to epoch seconds.
\<close>

record 'd env =
  time_time :: real
  parsedate_tz :: "string \<Rightarrow> 'd option"
  timegm :: "'d \<Rightarrow> int"

text \<open>The fields of \<open>CacheController\<close> that \<open>__init__\<close> sets, the backend apart.\<close>

record controller =
  cache_etags :: bool
  serializer :: serializer
  cacheable_status_codes :: "int list"

text \<open>\<open>__init__\<close>: \<open>status_codes or (200, 203, 300, 301, 308)\<close>.\<close>

definition init_controller :: "bool \<Rightarrow> serializer \<Rightarrow> int list \<Rightarrow> controller" where
  "init_controller etags ser status_codes =
     \<lparr>cache_etags = etags, serializer = ser,
      cacheable_status_codes =
        (if status_codes = [] then [200, 203, 300, 301, 308] else status_codes)\<rparr>"

definition PERMANENT_REDIRECT_STATUSES :: "int list" where
  "PERMANENT_REDIRECT_STATUSES = [301, 308]"

text \<open>
  Reading a name that is bound neither in the function nor in the module raises
  NameError.
\<close>

definition unbound_name :: "string \<Rightarrow> error + 'a" where
  "unbound_name n = Inl (NameError n)"

section \<open>The controller\<close>

definition cache_url :: "uri \<Rightarrow> error + string" where
  "cache_url u =
     (if scheme u = [] \<or> authority u = []
      then Inl (Exception (''Only absolute URIs are allowed. uri = '' @ str_uri u))
      else Inr (str_uri u))"

text \<open>
  \<open>cached_request\<close>, lines 159 to 183: the freshness lifetime. A directive's value is
  an integer or Python's \<open>None\<close>, and so is the lifetime read from it.
\<close>

definition freshness_lifetime ::
  "'d env \<Rightarrow> headers \<Rightarrow> directives \<Rightarrow> int \<Rightarrow> int option" where
  "freshness_lifetime env request_headers cc date =
     (let resp_cc = parse_cache_control request_headers;
          lifetime =
            (case resp_cc ''max-age'' of
               Some v \<Rightarrow> v
             | None \<Rightarrow>
                 (case hget request_headers ''expires'' of
                    None \<Rightarrow> Some 0
                  | Some e \<Rightarrow>
                      (case parsedate_tz env e of
                         None \<Rightarrow> Some 0
                       | Some expires \<Rightarrow> Some (max 0 (timegm env expires - date)))))
      in case cc ''max-age'' of Some v \<Rightarrow> v | None \<Rightarrow> lifetime)"

text \<open>
  \<open>cached_request\<close>, lines 191 to 203: the entry is returned when it is fresh; else
  it is deleted when \<open>request_headers\<close> holds no \<open>etag\<close>, and the lookup returns
  \<open>False\<close> (here \<open>Inr None\<close>). Comparing \<open>None\<close> with a number raises TypeError.
\<close>

definition serve_if_fresh ::
  "backend \<Rightarrow> string \<Rightarrow> headers \<Rightarrow> response \<Rightarrow> int option \<Rightarrow> real \<Rightarrow>
     (error + response option) \<times> backend" where
  "serve_if_fresh cache key request_headers resp lifetime current_age =
     (case lifetime of
        None \<Rightarrow> (Inl (TypeError ''>''), cache)
      | Some fl \<Rightarrow>
          if of_int fl > current_age then (Inr (Some resp), cache)
          else (Inr None,
                if hmem ''etag'' request_headers then cache else cache(key := None)))"

text \<open>
  \<open>cached_request\<close>: the result is the exception raised, or the cached response, or
  \<open>False\<close> (here \<open>Inr None\<close>); the backend after the call comes with it. The age
  is computed over the real numbers: the rounding of the float subtraction
  \<open>now - date\<close> is not modelled.
\<close>

definition cached_request ::
  "controller \<Rightarrow> 'd env \<Rightarrow> backend \<Rightarrow> uri \<Rightarrow> headers \<Rightarrow>
     (error + response option) \<times> backend" where
  "cached_request self env cache request_url request_headers =
     (case cache_url request_url of
        Inl e \<Rightarrow> (Inl e, cache)
      | Inr key \<Rightarrow>
          let cc = parse_cache_control request_headers in
          if dmem ''no-cache'' cc then (Inr None, cache)
          else if dmem ''max-age'' cc \<and> cc ''max-age'' = Some (Some 0) then (Inr None, cache)
          else
            (case cache key of
               None \<Rightarrow> (Inr None, cache)
             | Some cache_data \<Rightarrow>
                 (case loads (serializer self) request_headers (Some cache_data) of
                    None \<Rightarrow> (Inr None, cache)
                  | Some resp \<Rightarrow>
                      if status resp \<in> set PERMANENT_REDIRECT_STATUSES
                      then (Inr (Some resp), cache)
                      else
                        (case (if request_headers = [] then None
                               else hget request_headers ''date'') of
                           None \<Rightarrow>
                             (Inr None,
                              if hmem ''etag'' request_headers then cache
                              else cache(key := None))
                         | Some date_header \<Rightarrow>
                             (case parsedate_tz env date_header of
                                None \<Rightarrow> (Inl (TypeError ''timegm''), cache)
                              | Some d \<Rightarrow>
                                  let date = timegm env d;
                                      current_age = max 0 (time_time env - of_int date);
                                      lifetime = freshness_lifetime env request_headers cc date
                                  in (case cc ''min-fresh'' of
                                        None \<Rightarrow>
                                          serve_if_fresh cache key request_headers resp
                                            lifetime current_age
                                      | Some None \<Rightarrow> (Inl (TypeError ''+=''), cache)
                                      | Some (Some min_fresh) \<Rightarrow>
                                          serve_if_fresh cache key request_headers resp
                                            lifetime (current_age + of_int min_fresh)))))))"

text \<open>
  \<open>conditional_headers\<close>: its only parameter is \<open>request_url\<close>, and the module binds
  no \<open>request_headers\<close>, so the argument of \<open>loads\<close> raises NameError.
\<close>

definition conditional_headers ::
  "controller \<Rightarrow> backend \<Rightarrow> uri \<Rightarrow> error + (string \<times> string) list" where
  "conditional_headers self cache request_url =
     (case cache_url request_url of
        Inl e \<Rightarrow> Inl e
      | Inr key \<Rightarrow>
          (case unbound_name ''request_headers'' of
             Inl e \<Rightarrow> Inl e
           | Inr request_headers \<Rightarrow>
               (case loads (serializer self) request_headers (cache key) of
                  None \<Rightarrow> Inr []
                | Some resp \<Rightarrow>
                    let hs = headers resp;
                        new1 = (case hget hs ''etag'' of
                                  None \<Rightarrow> []
                                | Some v \<Rightarrow> dict_set [] ''If-None-Match'' v);
                        new2 = (case hget hs ''last-modified'' of
                                  None \<Rightarrow> new1
                                | Some v \<Rightarrow> dict_set new1 ''If-Modified-Since'' v)
                    in Inr new2)))"

text \<open>
  \<open>cache_response\<close>, lines 283 to 320: the decision to store, once the earlier checks
  have passed. \<open>None\<close> is the plain \<open>return\<close>; otherwise the body to serialize.
\<close>

definition max_age_positive :: "directives \<Rightarrow> error + bool" where
  \<comment> \<open>\<open>"max-age" in cc and cc["max-age"] > 0\<close>\<close>
  "max_age_positive cc =
     (case cc ''max-age'' of
        None \<Rightarrow> Inr False
      | Some None \<Rightarrow> Inl (TypeError ''>'')
      | Some (Some n) \<Rightarrow> Inr (n > 0))"

definition body_to_store ::
  "controller \<Rightarrow> directives \<Rightarrow> headers \<Rightarrow> int \<Rightarrow> string option \<Rightarrow>
     error + string option option" where
  "body_to_store self cc response_headers response_status_code response_body =
     (if cache_etags self \<and> hmem ''etag'' response_headers then Inr (Some response_body)
      else if response_status_code \<in> set PERMANENT_REDIRECT_STATUSES
      then Inr (Some (Some []))
      else if hmem ''date'' response_headers then
        (case max_age_positive cc of
           Inl e \<Rightarrow> Inl e
         | Inr True \<Rightarrow> Inr (Some response_body)
         | Inr False \<Rightarrow>
             if hmem ''expires'' response_headers then
               (if hget_default response_headers ''expires'' [] \<noteq> []
                then \<comment> \<open>only a log line\<close> Inr (Some response_body)
                else Inr (Some response_body))
             else Inr None)
      else Inr None)"

text \<open>
  \<open>cache_response\<close>, lines 246 to 251, the condition of the length check: a body is
  given, the response has a \<open>content-length\<close>, \<open>isdigit()\<close> holds of it, and the
  number \<open>int\<close> reads from it is not the length of the body. \<open>int\<close> raises
  ValueError for a text that \<open>isdigit()\<close> accepts and \<open>int\<close> cannot read.
\<close>

definition content_length_mismatch :: "headers \<Rightarrow> string option \<Rightarrow> error + bool" where
  "content_length_mismatch response_headers response_body =
     (case response_body of
        None \<Rightarrow> Inr False
      | Some b \<Rightarrow>
          (case hget response_headers ''content-length'' of
             None \<Rightarrow> Inr False
           | Some cl \<Rightarrow>
               if isdigit cl then
                 (case py_int cl of
                    None \<Rightarrow> Inl (ValueError ''int'')
                  | Some n \<Rightarrow> Inr (n \<noteq> int (length b)))
               else Inr False))"

text \<open>
  \<open>cache_response\<close>: the exception raised or the plain return, with the backend after
  the call. In the first branch the arguments of \<open>logger.debug\<close> read \<open>response\<close>,
  which is bound neither in the function nor in the module.
\<close>

definition cache_response ::
  "controller \<Rightarrow> backend \<Rightarrow> uri \<Rightarrow> headers \<Rightarrow> headers \<Rightarrow> int \<Rightarrow> string \<Rightarrow> string \<Rightarrow>
     string option \<Rightarrow> (error + unit) \<times> backend" where
  "cache_response self cache request_url request_headers response_headers
       response_status_code response_reason_phrase response_http_version response_body =
     (if response_status_code \<notin> set (cacheable_status_codes self) then
        (case (unbound_name ''response'' :: error + response) of
           Inl e \<Rightarrow> (Inl e, cache)
         | Inr response \<Rightarrow> (Inr (), cache))
      else
        (case content_length_mismatch response_headers response_body of
           Inl e \<Rightarrow> (Inl e, cache)
         | Inr True \<Rightarrow> (Inr (), cache)
         | Inr False \<Rightarrow>
             let cc_req = parse_cache_control request_headers;
                 cc = parse_cache_control response_headers
             in (case cache_url request_url of
                   Inl e \<Rightarrow> (Inl e, cache)
                 | Inr key \<Rightarrow>
                     let no_store = (dmem ''no-store'' cc \<or> dmem ''no-store'' cc_req);
                         cache1 = (if no_store \<and> truthy (cache key)
                                   then cache(key := None) else cache)
                     in if no_store then (Inr (), cache1)
                        else if CHR ''*'' \<in> set (hget_default response_headers ''vary'' [])
                        then (Inr (), cache1)
                        else
                          (case body_to_store self cc response_headers
                                  response_status_code response_body of
                             Inl e \<Rightarrow> (Inl e, cache1)
                           | Inr None \<Rightarrow> (Inr (), cache1)
                           | Inr (Some b) \<Rightarrow>
                               (Inr (),
                                cache1(key := Some
                                  (dumps (serializer self) request_headers
                                     response_headers response_status_code
                                     response_http_version response_reason_phrase
                                     b)))))))"

text \<open>
  \<open>update_cached_response\<close>: \<open>Inr None\<close> is the plain \<open>return\<close> when there is no
  entry. The stored body is a stream whose \<open>read\<close> gives the stored bytes; the entry
  returned holds that same body.
\<close>

definition update_cached_response ::
  "controller \<Rightarrow> backend \<Rightarrow> uri \<Rightarrow> headers \<Rightarrow> headers \<Rightarrow>
     (error + response option) \<times> backend" where
  "update_cached_response self cache request_url request_headers response_headers =
     (case cache_url request_url of
        Inl e \<Rightarrow> (Inl e, cache)
      | Inr key \<Rightarrow>
          (case loads (serializer self) request_headers (cache key) of
             None \<Rightarrow> (Inr None, cache)
           | Some cached_response \<Rightarrow>
               let excluded_headers = [''content-length''];
                   cached_headers =
                     hupdate (headers cached_response)
                       (dict_of (filter (\<lambda>(k, v). lower k \<notin> set excluded_headers)
                                   response_headers));
                   cached_status_code = 200;
                   read_body = body cached_response
               in (Inr (Some \<lparr>http_version = http_version cached_response,
                              status = cached_status_code,
                              reason_phrase = reason_phrase cached_response,
                              headers = cached_headers,
                              body = body cached_response\<rparr>),
                   cache(key := Some
                     (dumps (serializer self) request_headers cached_headers
                        cached_status_code (http_version cached_response)
                        (reason_phrase cached_response) (Some read_body))))))"

section \<open>Concrete collaborators for the examples\<close>

text \<open>
  A serializer for the examples: the stored bytes are the body, and \<open>loads\<close> joins
  them to the status, reason and headers of \<open>r\<close>.
\<close>

definition example_serializer :: "response \<Rightarrow> serializer" where
  "example_serializer r =
     \<lparr>loads = (\<lambda>request_headers data.
                 case data of None \<Rightarrow> None | Some d \<Rightarrow> Some (r\<lparr>body := d\<rparr>)),
      dumps = (\<lambda>request_headers response_headers code version reason b.
                 case b of None \<Rightarrow> [] | Some d \<Rightarrow> d)\<rparr>"

definition example_controller :: "response \<Rightarrow> controller" where
  "example_controller r = init_controller True (example_serializer r) []"

text \<open>
  The two HTTP dates of the examples, 1000 and 2000 seconds after the epoch. The date
  parser of the examples knows these two dates and no other text; its time tuple is
  the epoch second, which \<open>timegm\<close> returns.
\<close>

definition date_1000 :: string where
  "date_1000 = ''Thu, 01 Jan 1970 00:16:40 GMT''"

definition date_2000 :: string where
  "date_2000 = ''Thu, 01 Jan 1970 00:33:20 GMT''"

definition example_parsedate_tz :: "string \<Rightarrow> int option" where
  "example_parsedate_tz s =
     (if s = date_1000 then Some 1000 else if s = date_2000 then Some 2000 else None)"

definition example_env :: "real \<Rightarrow> int env" where
  "example_env t =
     \<lparr>time_time = t, parsedate_tz = example_parsedate_tz, timegm = (\<lambda>d. d)\<rparr>"

definition example_url :: uri where
  "example_url = \<lparr>scheme = ''http'', authority = ''a.org'', path = ''/x''\<rparr>"

definition example_key :: string where
  "example_key = ''http://a.org/x''"

definition example_cache :: backend where
  "example_cache = Map.empty(example_key := Some ''hello'')"

text \<open>A stored 200 response with the date \<open>date_1000\<close>, \<open>max-age=60\<close> and an ETag.\<close>

definition stored_200 :: response where
  "stored_200 =
     \<lparr>http_version = ''HTTP/1.1'', status = 200, reason_phrase = ''OK'',
      headers = [(''Date'', date_1000), (''Cache-Control'', ''max-age=60''),
                 (''ETag'', ''abc'')],
      body = []\<rparr>"

text \<open>A stored permanent redirect without any Date.\<close>

definition stored_301 :: response where
  "stored_301 =
     \<lparr>http_version = ''HTTP/1.1'', status = 301, reason_phrase = ''Moved Permanently'',
      headers = [(''Location'', ''http://a.org/y'')],
      body = []\<rparr>"

text \<open>The headers of a 304 response, for the examples.\<close>

definition not_modified_headers :: headers where
  "not_modified_headers =
     [(''Date'', date_2000), (''Content-Length'', ''0''), (''ETag'', ''def'')]"

section \<open>Facts about the string and header operations\<close>

lemma strip_empty_iff: "strip s = [] \<longleftrightarrow> (\<forall>c \<in> set s. is_space c)"
proof
  assume h: "strip s = []"
  show "\<forall>c \<in> set s. is_space c"
  proof (cases "dropWhile is_space s")
    case Nil
    then show ?thesis by simp
  next
    case (Cons x xs)
    then have nx: "\<not> is_space x" by (metis hd_dropWhile list.sel(1) list.simps(3))
    have "x \<in> set (rev (dropWhile is_space s))" using Cons by simp
    with nx have "dropWhile is_space (rev (dropWhile is_space s)) \<noteq> []"
      unfolding dropWhile_eq_Nil_conv by blast
    with h show ?thesis by (simp add: strip_def)
  qed
next
  assume "\<forall>c \<in> set s. is_space c"
  then have d: "dropWhile is_space s = []" by simp
  show "strip s = []" unfolding strip_def d by simp
qed

lemma equals_sign_not_space: "\<not> is_space CHR ''=''"
  by (simp add: is_space_def)

lemma int_digits_all: "list_all is_digit s \<Longrightarrow> int_digits acc s \<noteq> None"
  by (induction acc s rule: int_digits.induct) auto

lemma digit_not_int_space: "is_digit c \<Longrightarrow> \<not> int_space c"
  by (auto simp add: is_digit_def int_space_def Let_def)

lemma int_strip_digits:
  "list_all is_digit s \<Longrightarrow> rev (dropWhile int_space (rev (dropWhile int_space s))) = s"
proof (cases s rule: rev_cases)
  case Nil
  then show ?thesis by simp
next
  case (snoc xs x)
  assume a: "list_all is_digit s"
  then have x: "\<not> int_space x" using snoc digit_not_int_space by auto
  have "dropWhile int_space s = s"
  proof (cases s)
    case Nil
    then show ?thesis by simp
  next
    case (Cons y ys)
    then have "\<not> int_space y" using a digit_not_int_space by auto
    then show ?thesis using Cons by simp
  qed
  then show ?thesis using x snoc by simp
qed

text \<open>
  \<open>int(s)\<close> does not raise for a non-empty text of the digits \<open>0\<close> to \<open>9\<close> within
  the limit on the number of digits.
\<close>

lemma decimal_py_int:
  assumes "s \<noteq> []" and "list_all is_digit s" and "length s \<le> int_max_str_digits"
  shows "py_int s \<noteq> None"
proof -
  from assms(1,2) obtain c cs where
    s: "s = c # cs" and c: "is_digit c" and cs: "list_all is_digit cs"
    by (cases s) auto
  have strip: "rev (dropWhile int_space (rev (dropWhile int_space s))) = s"
    using assms(2) by (rule int_strip_digits)
  have sign: "c \<noteq> CHR ''-''" "c \<noteq> CHR ''+''"
    using c by (auto simp add: is_digit_def)
  have "length (filter is_digit s) \<le> length s" by (rule length_filter_le)
  then have limit: "length (filter is_digit s) \<le> int_max_str_digits"
    using assms(3) by (rule order_trans)
  have "py_int s = int_unsigned s"
    unfolding py_int_def strip using sign by (simp add: s)
  also have "\<dots> = map_option int (int_digits (digit_val c) cs)"
    using c limit by (simp add: int_unsigned_def s)
  finally show ?thesis using int_digits_all[OF cs] by simp
qed

lemma hget_Nil: "hget [] k = None"
  by (simp add: hget_def)

lemma hget_filter_other:
  "lower k' \<noteq> lower k \<Longrightarrow> hget (filter (\<lambda>(m, _). lower m \<noteq> lower k) hs) k' = hget hs k'"
  by (induction hs) (auto simp add: hget_def)

lemma hget_hset: "hget (hset hs k v) k' = (if lower k' = lower k then Some v else hget hs k')"
proof (induction hs)
  case Nil
  show ?case by (simp add: hget_def)
next
  case (Cons p hs)
  obtain n w where p: "p = (n, w)" by (cases p)
  show ?case
  proof (cases "lower n = lower k")
    case True
    have "hget ((k, v) # filter (\<lambda>(m, _). lower m \<noteq> lower k) hs) k' =
          (if lower k' = lower k then Some v
           else hget (filter (\<lambda>(m, _). lower m \<noteq> lower k) hs) k')"
      by (simp add: hget_def)
    also have "\<dots> = (if lower k' = lower k then Some v else hget hs k')"
      by (simp add: hget_filter_other)
    also have "\<dots> = (if lower k' = lower k then Some v else hget (p # hs) k')"
      using True by (simp add: p hget_def)
    finally show ?thesis using True by (simp add: p)
  next
    case False
    have "hget ((n, w) # hset hs k v) k' =
          (if lower n = lower k' then Some w else hget (hset hs k v) k')"
      by (auto simp add: hget_def)
    then show ?thesis using False Cons by (auto simp add: p hget_def)
  qed
qed

lemma hupdate_snoc: "hupdate hs (d @ [(k, v)]) = hset (hupdate hs d) k v"
  by (simp add: hupdate_def)

lemma hget_rev_snoc:
  "hget (rev (d @ [(k, v)])) k' = (if lower k' = lower k then Some v else hget (rev d) k')"
  by (auto simp add: hget_def)

text \<open>After \<open>update\<close>, a name has the value of the last item of that name, if any.\<close>

lemma hget_hupdate:
  "hget (hupdate hs d) k = (case hget (rev d) k of None \<Rightarrow> hget hs k | Some v \<Rightarrow> Some v)"
proof (induction d rule: rev_induct)
  case Nil
  show ?case by (simp add: hupdate_def hget_def)
next
  case (snoc p d)
  obtain n w where p: "p = (n, w)" by (cases p)
  show ?case unfolding p hupdate_snoc hget_hset hget_rev_snoc using snoc by simp
qed

lemma dict_set_fresh: "k \<notin> fst ` set d \<Longrightarrow> dict_set d k v = d @ [(k, v)]"
  by (induction d) auto

lemma dict_of_snoc: "dict_of (ps @ [(k, v)]) = dict_set (dict_of ps) k v"
  by (simp add: dict_of_def)

lemma dict_of_distinct: "distinct (map fst ps) \<Longrightarrow> dict_of ps = ps"
proof (induction ps rule: rev_induct)
  case Nil
  show ?case by (simp add: dict_of_def)
next
  case (snoc p ps)
  obtain n w where p: "p = (n, w)" by (cases p)
  from snoc.prems have d: "distinct (map fst ps)" and f: "n \<notin> fst ` set ps"
    by (auto simp add: p)
  show ?case unfolding p dict_of_snoc using snoc.IH[OF d] f by (simp add: dict_set_fresh)
qed

lemma distinct_lower_names: "distinct (map (lower \<circ> fst) ps) \<Longrightarrow> distinct (map fst ps)"
proof -
  assume "distinct (map (lower \<circ> fst) ps)"
  then have "distinct (map lower (map fst ps))" by simp
  then show ?thesis unfolding distinct_map by blast
qed

lemma map_of_rev_distinct: "distinct (map fst xs) \<Longrightarrow> map_of (rev xs) = map_of xs"
  by (rule map_of_inject_set[THEN iffD2]) (simp_all add: rev_map[symmetric])

lemma hget_rev_distinct: "distinct (map (lower \<circ> fst) d) \<Longrightarrow> hget (rev d) k = hget d k"
proof -
  assume "distinct (map (lower \<circ> fst) d)"
  then have "distinct (map fst (map (\<lambda>(n, v). (lower n, v)) d))"
    by (simp add: comp_def case_prod_beta)
  then have "map_of (rev (map (\<lambda>(n, v). (lower n, v)) d)) =
             map_of (map (\<lambda>(n, v). (lower n, v)) d)"
    by (rule map_of_rev_distinct)
  then show ?thesis by (simp add: hget_def rev_map)
qed

lemma hget_filter_names:
  "hget (filter (\<lambda>(n, v). P (lower n)) hs) k = (if P (lower k) then hget hs k else None)"
  by (induction hs) (auto simp add: hget_def)

section \<open>Facts about the directive parser\<close>

lemma blank_segment_unknown:
  assumes "strip s = []"
  shows "known_directives (directive_name s) = None"
proof -
  from assms have "\<forall>c \<in> set s. is_space c" by (simp add: strip_empty_iff)
  then have "\<forall>c \<in> set s. c \<noteq> CHR ''=''" using equals_sign_not_space by auto
  then have tw: "takeWhile (\<lambda>c. c \<noteq> CHR ''='') s = s" by simp
  have "directive_name s = strip (takeWhile (\<lambda>c. c \<noteq> CHR ''='') s)"
    by (simp add: directive_name_def split1_def)
  with tw assms have "directive_name s = []" by (simp only:)
  then show ?thesis by (simp add: known_directives_def)
qed

lemma apply_typ_py_int: "apply_typ t s = py_int s"
  by (cases t) simp

text \<open>One round of the loop does what the table says of its segment.\<close>

lemma parse_directive_spec:
  "parse_directive retval s =
     (case spec_recorded s of None \<Rightarrow> retval | Some (k, v) \<Rightarrow> retval(k := Some v))"
proof (cases "strip s = []")
  case True
  then show ?thesis using blank_segment_unknown[OF True]
    by (simp add: parse_directive_def spec_recorded_def)
next
  case False
  then show ?thesis
    by (cases "known_directives (directive_name s)")
       (auto simp add: parse_directive_def spec_recorded_def segment_value_def
          directive_name_def apply_typ_py_int Let_def
        split: option.splits value_type.splits)
qed

lemma parse_segments_snoc:
  "parse_segments (segs @ [s]) = parse_directive (parse_segments segs) s"
  by (simp add: parse_segments_def)

lemma parse_segments_spec: "parse_segments segs k = spec_lookup segs k"
proof (induction segs rule: rev_induct)
  case Nil
  show ?case by (simp add: parse_segments_def spec_lookup_def recording_def)
next
  case (snoc s segs)
  show ?case
  proof (cases "spec_recorded s")
    case None
    then show ?thesis using snoc
      by (simp add: parse_segments_snoc parse_directive_spec spec_lookup_def recording_def)
  next
    case (Some kv)
    then show ?thesis using snoc
      by (cases kv)
         (simp add: parse_segments_snoc parse_directive_spec spec_lookup_def recording_def)
  qed
qed

lemma spec_recorded_name: "spec_recorded s = Some (k, v) \<Longrightarrow> k = directive_name s"
  by (auto simp add: spec_recorded_def split: option.splits prod.splits if_splits)

lemma spec_recorded_required:
  assumes "spec_recorded s = Some (k, v)" and "known_directives k = Some (Some t, True)"
  shows "v \<noteq> None"
proof -
  from assms(1) have "k = directive_name s" by (rule spec_recorded_name)
  with assms show ?thesis
    by (cases "segment_value s") (auto simp add: spec_recorded_def)
qed

lemma spec_lookup_required:
  assumes "known_directives k = Some (Some t, True)"
  shows "spec_lookup segs k \<noteq> Some None"
proof (cases "rev (recording k segs)")
  case Nil
  then show ?thesis by (simp add: spec_lookup_def)
next
  case (Cons s ss)
  then have "s \<in> set (recording k segs)" by (metis list.set_intros(1) set_rev)
  then have "map_option fst (spec_recorded s) = Some k" by (simp add: recording_def)
  then obtain v where sv: "spec_recorded s = Some (k, v)" by auto
  then have "v \<noteq> None" using assms by (rule spec_recorded_required)
  then show ?thesis using Cons sv by (simp add: spec_lookup_def)
qed

text \<open>
  A directive whose value is required is never recorded with \<open>None\<close>: the branches of
  the controller that would compare \<open>None\<close> with a number are not reached.
\<close>

lemma parse_cache_control_required:
  "known_directives k = Some (Some t, True) \<Longrightarrow> parse_cache_control hs k \<noteq> Some None"
  by (simp add: parse_cache_control_def parse_segments_spec spec_lookup_required)

lemma max_age_is_int: "parse_cache_control hs ''max-age'' \<noteq> Some None"
  by (rule parse_cache_control_required[where t = IntTyp]) (simp add: known_directives_def)

lemma parse_cache_control_no_header:
  "hget hs ''cache-control'' = None \<Longrightarrow> parse_cache_control hs = Map.empty"
  by (simp add: parse_cache_control_def hget_default_def parse_segments_def
        parse_directive_def strip_def)

section \<open>Evaluating the examples\<close>

lemmas string_eval =
  strip_def is_space_def lower_def lower_char_def is_upper_def is_digit_def digit_val_def
  isdigit_def isdigit_char_def split1_def py_int_def int_unsigned_def int_space_def
  int_max_str_digits_def

lemmas header_eval = hget_def hmem_def hget_default_def

lemmas parse_eval =
  parse_cache_control_def parse_segments_def parse_directive_def known_directives_def
  dmem_def

lemmas example_eval =
  example_controller_def init_controller_def example_serializer_def example_env_def
  example_cache_def PERMANENT_REDIRECT_STATUSES_def

text \<open>
  The superscript two is a digit for \<open>isdigit()\<close> and not for \<open>int\<close>: the length
  check raises ValueError for such a \<open>content-length\<close>.
\<close>

lemma content_length_superscript_raises:
  "content_length_mismatch [(''Content-Length'', [CHR 0xB2])] (Some b) =
     Inl (ValueError ''int'')"
  by (simp add: content_length_mismatch_def header_eval string_eval)

lemma cache_url_example: "cache_url example_url = Inr example_key"
  by (simp add: cache_url_def example_url_def example_key_def str_uri_def)

section \<open>Lookup: \<open>cached_request\<close>\<close>

text \<open>
  C1, on the code. The claim: the freshness lifetime is read from the stored response
  (its \<open>max-age\<close>, else its \<open>Expires\<close> and \<open>Date\<close>), so a lookup at time
  \<open>T + 30\<close> of an entry stored with \<open>Date = T\<close> and \<open>max-age=60\<close> is a hit. The code
  reads \<open>Date\<close>, \<open>Cache-Control\<close>, \<open>Expires\<close> and \<open>ETag\<close> from \<open>request_headers\<close>,
  never from the stored response. At \<open>T = 1000\<close> and time \<open>1030\<close>, with the stored
  entry \<open>stored_200\<close>: a request without headers is a miss and the entry is deleted;
  a request that itself carries the date \<open>date_1000\<close> is a miss too, since its own
  headers give the lifetime 0, and the entry is deleted.
\<close>

theorem cached_request_fresh_entry_missed:
  "cached_request (example_controller stored_200) (example_env 1030) example_cache
     example_url [] = (Inr None, example_cache(example_key := None)) \<and>
   cached_request (example_controller stored_200) (example_env 1030) example_cache
     example_url [(''Date'', date_1000)] = (Inr None, example_cache(example_key := None))"
proof
  show "cached_request (example_controller stored_200) (example_env 1030) example_cache
     example_url [] = (Inr None, example_cache(example_key := None))"
    by (simp add: cached_request_def cache_url_example parse_cache_control_no_header
          hget_Nil hmem_def dmem_def example_eval stored_200_def)
next
  have cc: "parse_cache_control [(''Date'', date_1000)] = Map.empty"
    by (rule parse_cache_control_no_header) (simp add: header_eval string_eval)
  have d: "hget [(''Date'', date_1000)] ''date'' = Some date_1000"
    by (simp add: header_eval string_eval)
  have e: "hget [(''Date'', date_1000)] ''expires'' = None"
    by (simp add: header_eval string_eval)
  have t: "hget [(''Date'', date_1000)] ''etag'' = None"
    by (simp add: header_eval string_eval)
  have p: "example_parsedate_tz date_1000 = Some 1000"
    by (simp add: example_parsedate_tz_def)
  show "cached_request (example_controller stored_200) (example_env 1030) example_cache
     example_url [(''Date'', date_1000)] = (Inr None, example_cache(example_key := None))"
    by (simp add: cached_request_def cache_url_example cc d e t p freshness_lifetime_def
          serve_if_fresh_def hmem_def dmem_def example_eval stored_200_def)
qed

text \<open>
  C7, on the code. The claim: a stale entry is deleted exactly when the stored entry has
  no ETag, and a stale entry that has an ETag stays in the backend. The code tests
  \<open>"etag" not in request_headers\<close>. The stored entry \<open>stored_200\<close> has an ETag; at
  time \<open>1090\<close> a request whose only header is the date \<open>date_1000\<close> finds it stale
  and deletes it.
\<close>

theorem cached_request_stale_entry_with_etag_deleted:
  "hget (headers stored_200) ''etag'' = Some ''abc'' \<and>
   cached_request (example_controller stored_200) (example_env 1090) example_cache
     example_url [(''Date'', date_1000)] = (Inr None, example_cache(example_key := None))"
proof
  show "hget (headers stored_200) ''etag'' = Some ''abc''"
    by (simp add: stored_200_def header_eval string_eval)
next
  have cc: "parse_cache_control [(''Date'', date_1000)] = Map.empty"
    by (rule parse_cache_control_no_header) (simp add: header_eval string_eval)
  have d: "hget [(''Date'', date_1000)] ''date'' = Some date_1000"
    by (simp add: header_eval string_eval)
  have e: "hget [(''Date'', date_1000)] ''expires'' = None"
    by (simp add: header_eval string_eval)
  have t: "hget [(''Date'', date_1000)] ''etag'' = None"
    by (simp add: header_eval string_eval)
  have p: "example_parsedate_tz date_1000 = Some 1000"
    by (simp add: example_parsedate_tz_def)
  show "cached_request (example_controller stored_200) (example_env 1090) example_cache
     example_url [(''Date'', date_1000)] = (Inr None, example_cache(example_key := None))"
    by (simp add: cached_request_def cache_url_example cc d e t p freshness_lifetime_def
          serve_if_fresh_def hmem_def dmem_def example_eval stored_200_def)
qed

text \<open>
  C9. When the lookup reaches a deserialized entry (the URL is absolute, the request
  has neither \<open>no-cache\<close> nor \<open>max-age=0\<close>, the backend holds data under the key and
  \<open>loads\<close> gives the entry \<open>resp\<close>) and the status of \<open>resp\<close> is 301 or 308, then
  \<open>resp\<close> is returned and the backend is unchanged, whatever the clock, the date
  parser and the other request headers are.
\<close>

theorem cached_request_permanent_redirect:
  assumes "cache_url request_url = Inr key"
      and "\<not> dmem ''no-cache'' (parse_cache_control request_headers)"
      and "parse_cache_control request_headers ''max-age'' \<noteq> Some (Some 0)"
      and "cache key = Some cache_data"
      and "loads (serializer self) request_headers (Some cache_data) = Some resp"
      and "status resp = 301 \<or> status resp = 308"
  shows "cached_request self env cache request_url request_headers = (Inr (Some resp), cache)"
proof -
  from assms(6) have "status resp \<in> set PERMANENT_REDIRECT_STATUSES"
    by (auto simp add: PERMANENT_REDIRECT_STATUSES_def)
  with assms(1-5) show ?thesis
    by (simp add: cached_request_def)
qed

text \<open>
  The stored redirect \<open>stored_301\<close> has no Date; a request without headers gets it
  back at any time, here 5000.
\<close>

theorem cached_request_permanent_redirect_witness:
  "cached_request (example_controller stored_301) (example_env 5000) example_cache
     example_url [] = (Inr (Some (stored_301\<lparr>body := ''hello''\<rparr>)), example_cache)"
proof -
  have cc: "parse_cache_control [] = Map.empty"
    by (rule parse_cache_control_no_header) (rule hget_Nil)
  have h2: "\<not> dmem ''no-cache'' (parse_cache_control [])"
    by (simp add: cc dmem_def)
  have h3: "parse_cache_control [] ''max-age'' \<noteq> Some (Some 0)"
    by (simp add: cc)
  have h4: "example_cache example_key = Some ''hello''"
    by (simp add: example_cache_def)
  have h5: "loads (serializer (example_controller stored_301)) [] (Some ''hello'') =
              Some (stored_301\<lparr>body := ''hello''\<rparr>)"
    by (simp add: example_eval)
  have h6: "status (stored_301\<lparr>body := ''hello''\<rparr>) = 301 \<or>
            status (stored_301\<lparr>body := ''hello''\<rparr>) = 308"
    by (simp add: stored_301_def)
  show ?thesis
    by (rule cached_request_permanent_redirect
          [where cache = example_cache and key = example_key,
           OF cache_url_example h2 h3 h4 h5 h6])
qed

text \<open>
  C10. For every input, the backend after \<open>cached_request\<close> is the backend before it,
  or the backend before it without the entry under the request's own cache key; so
  every key holds what it held before, or it is the request's key and holds nothing.
  This also covers the calls that raise.
\<close>

theorem cached_request_only_deletes_own_entry:
  "(let cache' = snd (cached_request self env cache request_url request_headers)
    in (cache' = cache \<or>
        (\<exists>key. cache_url request_url = Inr key \<and> cache' = cache(key := None))) \<and>
       (\<forall>k. cache' k = cache k \<or> (cache_url request_url = Inr k \<and> cache' k = None)))"
proof -
  let ?cache' = "snd (cached_request self env cache request_url request_headers)"
  have a: "?cache' = cache \<or>
           (\<exists>key. cache_url request_url = Inr key \<and> ?cache' = cache(key := None))"
    by (auto simp add: cached_request_def serve_if_fresh_def Let_def
        split: sum.splits option.splits if_splits)
  then have "\<forall>k. ?cache' k = cache k \<or> (cache_url request_url = Inr k \<and> ?cache' k = None)"
    by (auto split: if_splits)
  with a show ?thesis by (simp add: Let_def)
qed

text \<open>
  The stale lookup of C7's example deletes the entry under \<open>example_key\<close>, and that is
  all it does to the backend.
\<close>

theorem cached_request_only_deletes_own_entry_witness:
  "(let cache' = snd (cached_request (example_controller stored_200) (example_env 1090)
                        example_cache example_url [(''Date'', date_1000)])
    in (cache' = example_cache \<or>
        (\<exists>key. cache_url example_url = Inr key \<and> cache' = example_cache(key := None))) \<and>
       (\<forall>k. cache' k = example_cache k \<or> (cache_url example_url = Inr k \<and> cache' k = None)))"
  by (rule cached_request_only_deletes_own_entry)

section \<open>The directive parser: \<open>parse_cache_control\<close>\<close>

text \<open>
  C6, as stated, fails: the claim says that a directive whose value fails to parse is
  dropped, and that \<open>max-stale=abc\<close> yields no \<open>max-stale\<close> entry. The value of
  \<open>max-stale\<close> is optional, so the parser records the name without a value before it
  reads the value, and the failed read leaves that entry in place.
\<close>

theorem parse_cache_control_max_stale_unparsable_recorded:
  "parse_cache_control [(''Cache-Control'', ''max-stale=abc'')] ''max-stale'' = Some None"
  by (simp add: parse_eval header_eval string_eval)

text \<open>
  C6, amended. For every header set and every name \<open>k\<close>, the entry of \<open>k\<close> in the
  parsed directives is decided by the last comma-separated segment that records
  something under \<open>k\<close>, and by no other segment; there is no entry when no segment
  does. By \<open>spec_recorded\<close> a segment records nothing when its name is unknown (an
  empty segment has the unknown name \<open>''''\<close>) and nothing when its directive requires a
  value (\<open>max-age\<close>, \<open>min-fresh\<close>, \<open>s-maxage\<close>) and the value is missing or is not an
  integer; it records its name without a value for a flag-only directive, and for
  \<open>max-stale\<close> when the value is missing or is not an integer; it records its name
  with the integer otherwise.
\<close>

theorem parse_cache_control_last_recording_segment:
  "parse_cache_control hs k =
     spec_lookup (split_on CHR '','' (hget_default hs ''cache-control'' [])) k"
proof -
  have "parse_cache_control hs k =
          parse_segments (split_on CHR '','' (hget_default hs ''cache-control'' [])) k"
    by (simp add: parse_cache_control_def)
  also have "\<dots> = spec_lookup (split_on CHR '','' (hget_default hs ''cache-control'' [])) k"
    by (rule parse_segments_spec)
  finally show ?thesis .
qed

text \<open>
  The header \<open>foo=1, max-age=30, max-age=x, no-store\<close>: the unknown \<open>foo\<close> and the
  unreadable second \<open>max-age\<close> are dropped, \<open>max-age=30\<close> and the flag \<open>no-store\<close>
  are recorded.
\<close>

theorem parse_cache_control_last_recording_segment_witness:
  "parse_cache_control [(''Cache-Control'', ''foo=1, max-age=30, max-age=x, no-store'')]
     ''max-age'' = Some (Some 30) \<and>
   parse_cache_control [(''Cache-Control'', ''foo=1, max-age=30, max-age=x, no-store'')]
     ''foo'' = None \<and>
   parse_cache_control [(''Cache-Control'', ''foo=1, max-age=30, max-age=x, no-store'')]
     ''no-store'' = Some None"
proof -
  let ?hs = "[(''Cache-Control'', ''foo=1, max-age=30, max-age=x, no-store'')]"
  let ?segs = "split_on CHR '','' (hget_default ?hs ''cache-control'' [])"
  have segs: "?segs = [''foo=1'', '' max-age=30'', '' max-age=x'', '' no-store'']"
    by (simp add: header_eval string_eval)
  have r1: "spec_recorded ''foo=1'' = None"
    by (simp add: spec_recorded_def directive_name_def known_directives_def string_eval)
  have r2: "spec_recorded '' max-age=30'' = Some (''max-age'', Some 30)"
    by (simp add: spec_recorded_def directive_name_def segment_value_def
          known_directives_def string_eval)
  have r3: "spec_recorded '' max-age=x'' = None"
    by (simp add: spec_recorded_def directive_name_def segment_value_def
          known_directives_def string_eval)
  have r4: "spec_recorded '' no-store'' = Some (''no-store'', None)"
    by (simp add: spec_recorded_def directive_name_def known_directives_def string_eval)
  have a: "spec_lookup ?segs ''max-age'' = Some (Some 30)"
    unfolding segs by (simp add: spec_lookup_def recording_def r1 r2 r3 r4)
  have b: "spec_lookup ?segs ''foo'' = None"
    unfolding segs by (simp add: spec_lookup_def recording_def r1 r2 r3 r4)
  have c: "spec_lookup ?segs ''no-store'' = Some None"
    unfolding segs by (simp add: spec_lookup_def recording_def r1 r2 r3 r4)
  show ?thesis
    using parse_cache_control_last_recording_segment[of ?hs "''max-age''"]
          parse_cache_control_last_recording_segment[of ?hs "''foo''"]
          parse_cache_control_last_recording_segment[of ?hs "''no-store''"]
    by (simp only: a b c)
qed

section \<open>Revalidation: \<open>update_cached_response\<close> and \<open>conditional_headers\<close>\<close>

text \<open>
  C5. When an entry is stored under the request's key (the URL is absolute and \<open>loads\<close>
  gives the entry \<open>cached\<close>), and the 304 response's header mapping holds each name
  once, \<open>update_cached_response\<close> returns the version, the status 200, the reason and
  the body of \<open>cached\<close> with merged headers, and stores under the key what \<open>dumps\<close>
  makes of the same five values. In the merged headers a name of the 304 response,
  \<open>content-length\<close> apart, has the 304 response's value; every other name, and
  \<open>content-length\<close>, has what the stored entry had.
\<close>

theorem update_cached_response_merges_headers:
  assumes "cache_url request_url = Inr key"
      and "loads (serializer self) request_headers (cache key) = Some cached"
      and "distinct (map (lower \<circ> fst) response_headers)"
  shows "\<exists>merged.
      update_cached_response self cache request_url request_headers response_headers =
        (Inr (Some \<lparr>http_version = http_version cached, status = 200,
                    reason_phrase = reason_phrase cached, headers = merged,
                    body = body cached\<rparr>),
         cache(key := Some
           (dumps (serializer self) request_headers merged 200 (http_version cached)
              (reason_phrase cached) (Some (body cached))))) \<and>
      (\<forall>k. hget merged k =
            (if lower k \<noteq> ''content-length'' \<and> hmem k response_headers
             then hget response_headers k
             else hget (headers cached) k))"
proof -
  let ?kept = "filter (\<lambda>(k, v). lower k \<notin> set [''content-length'']) response_headers"
  let ?merged = "hupdate (headers cached) (dict_of ?kept)"
  have result:
    "update_cached_response self cache request_url request_headers response_headers =
        (Inr (Some \<lparr>http_version = http_version cached, status = 200,
                    reason_phrase = reason_phrase cached, headers = ?merged,
                    body = body cached\<rparr>),
         cache(key := Some
           (dumps (serializer self) request_headers ?merged 200 (http_version cached)
              (reason_phrase cached) (Some (body cached)))))"
    using assms(1,2) by (simp add: update_cached_response_def Let_def)
  have kept_distinct: "distinct (map (lower \<circ> fst) ?kept)"
    using assms(3) by (rule distinct_map_filter)
  then have dict: "dict_of ?kept = ?kept"
    by (intro dict_of_distinct distinct_lower_names)
  have kept: "hget ?kept k =
                (if lower k \<notin> set [''content-length''] then hget response_headers k else None)"
    for k
    by (rule hget_filter_names[where P = "\<lambda>n. n \<notin> set [''content-length'']"])
  have "hget ?merged k =
          (if lower k \<noteq> ''content-length'' \<and> hmem k response_headers
           then hget response_headers k
           else hget (headers cached) k)" for k
    unfolding dict hget_hupdate hget_rev_distinct[OF kept_distinct] kept
    by (simp add: hmem_def split: option.splits)
  with result show ?thesis by blast
qed

text \<open>
  The stored entry \<open>stored_200\<close> and the 304 headers \<open>not_modified_headers\<close>: the
  merged headers take \<open>Date\<close> and \<open>ETag\<close> from the 304 response, keep the stored
  \<open>Cache-Control\<close>, and do not take the \<open>Content-Length\<close>; the body \<open>hello\<close> stays.
\<close>

theorem update_cached_response_merges_headers_witness:
  "\<exists>merged.
      update_cached_response (example_controller stored_200) example_cache example_url []
          not_modified_headers =
        (Inr (Some \<lparr>http_version = ''HTTP/1.1'', status = 200, reason_phrase = ''OK'',
                    headers = merged, body = ''hello''\<rparr>),
         example_cache(example_key := Some ''hello'')) \<and>
      hget merged ''Date'' = Some date_2000 \<and>
      hget merged ''ETag'' = Some ''def'' \<and>
      hget merged ''Cache-Control'' = Some ''max-age=60'' \<and>
      hget merged ''Content-Length'' = None"
proof -
  have h2: "loads (serializer (example_controller stored_200)) [] (example_cache example_key) =
              Some (stored_200\<lparr>body := ''hello''\<rparr>)"
    by (simp add: example_eval)
  have h3: "distinct (map (lower \<circ> fst) not_modified_headers)"
    by (simp add: not_modified_headers_def string_eval)
  obtain merged where
    r: "update_cached_response (example_controller stored_200) example_cache example_url []
          not_modified_headers =
        (Inr (Some \<lparr>http_version = http_version (stored_200\<lparr>body := ''hello''\<rparr>),
                    status = 200,
                    reason_phrase = reason_phrase (stored_200\<lparr>body := ''hello''\<rparr>),
                    headers = merged, body = body (stored_200\<lparr>body := ''hello''\<rparr>)\<rparr>),
         example_cache(example_key := Some
           (dumps (serializer (example_controller stored_200)) [] merged 200
              (http_version (stored_200\<lparr>body := ''hello''\<rparr>))
              (reason_phrase (stored_200\<lparr>body := ''hello''\<rparr>))
              (Some (body (stored_200\<lparr>body := ''hello''\<rparr>))))))" and
    m: "\<And>k. hget merged k =
            (if lower k \<noteq> ''content-length'' \<and> hmem k not_modified_headers
             then hget not_modified_headers k
             else hget (headers (stored_200\<lparr>body := ''hello''\<rparr>)) k)"
    using update_cached_response_merges_headers
            [where cache = example_cache and key = example_key,
             OF cache_url_example h2 h3]
    by blast
  have r': "update_cached_response (example_controller stored_200) example_cache example_url []
          not_modified_headers =
        (Inr (Some \<lparr>http_version = ''HTTP/1.1'', status = 200, reason_phrase = ''OK'',
                    headers = merged, body = ''hello''\<rparr>),
         example_cache(example_key := Some ''hello''))"
    using r by (simp add: stored_200_def example_eval)
  have "hget merged ''Date'' = Some date_2000"
    by (subst m) (simp add: not_modified_headers_def stored_200_def header_eval string_eval)
  moreover have "hget merged ''ETag'' = Some ''def''"
    by (subst m) (simp add: not_modified_headers_def stored_200_def header_eval string_eval)
  moreover have "hget merged ''Cache-Control'' = Some ''max-age=60''"
    by (subst m) (simp add: not_modified_headers_def stored_200_def header_eval string_eval)
  moreover have "hget merged ''Content-Length'' = None"
    by (subst m) (simp add: not_modified_headers_def stored_200_def header_eval string_eval)
  ultimately show ?thesis using r' by blast
qed

text \<open>
  C4, on the code. The claim: \<open>conditional_headers\<close> returns a header set built from
  the stored entry and never raises. The code passes \<open>request_headers\<close> to \<open>loads\<close>,
  a name that the function does not bind: the call raises NameError, here for a URL
  whose stored entry \<open>stored_200\<close> has an ETag.
\<close>

theorem conditional_headers_raises_name_error:
  "conditional_headers (example_controller stored_200) example_cache example_url =
     Inl (NameError ''request_headers'')"
  by (simp add: conditional_headers_def cache_url_example unbound_name_def)

section \<open>Storing: \<open>cache_response\<close>\<close>

text \<open>
  C3, on the code. The claim: for a status outside the cacheable set the function
  returns without storing and without raising. The code stores nothing, but the
  arguments of its log call read \<open>response.status\<close>, and \<open>response\<close> is not bound:
  the call raises NameError, here for a 404 response with an ETag and \<open>max-age\<close>.
\<close>

theorem cache_response_uncacheable_status_raises:
  "cache_response (example_controller stored_200) example_cache example_url []
     [(''ETag'', ''abc''), (''Cache-Control'', ''max-age=60'')] 404 ''Not Found''
     ''HTTP/1.1'' (Some []) = (Inl (NameError ''response''), example_cache)"
  by (simp add: cache_response_def example_controller_def init_controller_def
        unbound_name_def)

text \<open>
  C2, as stated, fails: the claim says that for a status 301 or 308 the stored body is
  replaced with an empty byte sequence. The ETag rule comes first in the code and
  keeps the body: a 301 response with an ETag and the body \<open>moved\<close> is stored with
  that body (the example serializer stores the body bytes).
\<close>

theorem cache_response_redirect_with_etag_keeps_body:
  "cache_response (example_controller stored_301) Map.empty example_url []
     [(''ETag'', ''abc''), (''Location'', ''http://a.org/y'')] 301 ''Moved Permanently''
     ''HTTP/1.1'' (Some ''moved'') = (Inr (), Map.empty(example_key := Some ''moved''))"
proof -
  let ?hs = "[(''ETag'', ''abc''), (''Location'', ''http://a.org/y'')]"
  have cc: "parse_cache_control ?hs = Map.empty"
    by (rule parse_cache_control_no_header) (simp add: header_eval string_eval)
  have cc_req: "parse_cache_control [] = Map.empty"
    by (rule parse_cache_control_no_header) (rule hget_Nil)
  have cl: "content_length_mismatch ?hs (Some ''moved'') = Inr False"
    by (simp add: content_length_mismatch_def header_eval string_eval)
  have vary: "hget_default ?hs ''vary'' [] = []"
    by (simp add: header_eval string_eval)
  have etag: "hmem ''etag'' ?hs"
    by (simp add: header_eval string_eval)
  show ?thesis
    by (simp add: cache_response_def cache_url_example cc cc_req cl vary etag dmem_def
          body_to_store_def example_eval)
qed

text \<open>
  C2, amended. Let the status, Content-Length, no-store and Vary checks pass, for an
  absolute URL; for the Content-Length check this means that its condition is
  evaluated without raising and is false. If ETag caching is enabled and the response has an ETag, the response
  is stored with its body as given. Otherwise, if the status is 301 or 308, it is
  stored with an empty body. Otherwise, if it has a Date header and either a
  \<open>max-age\<close> above 0 or a non-empty Expires header, it is stored with its body as
  given. Otherwise, if it has no Date header, or neither a \<open>max-age\<close> above 0 nor an
  Expires header, nothing is stored and the backend is unchanged.
\<close>

theorem cache_response_store_decision:
  assumes "response_status_code \<in> set (cacheable_status_codes self)"
      and "content_length_mismatch response_headers response_body = Inr False"
      and "cache_url request_url = Inr key"
      and "\<not> dmem ''no-store'' (parse_cache_control request_headers)"
      and "\<not> dmem ''no-store'' (parse_cache_control response_headers)"
      and "CHR ''*'' \<notin> set (hget_default response_headers ''vary'' [])"
  shows
    "(let result = cache_response self cache request_url request_headers response_headers
                     response_status_code response_reason_phrase response_http_version
                     response_body;
          stored = (\<lambda>b. (Inr (), cache(key := Some
                      (dumps (serializer self) request_headers response_headers
                         response_status_code response_http_version
                         response_reason_phrase b))));
          etag = (cache_etags self \<and> hmem ''etag'' response_headers);
          redirect = (response_status_code = 301 \<or> response_status_code = 308);
          max_age = (\<exists>n. parse_cache_control response_headers ''max-age'' = Some (Some n)
                        \<and> n > 0);
          expires = (\<exists>v. hget response_headers ''expires'' = Some v \<and> v \<noteq> [])
      in (etag \<longrightarrow> result = stored response_body) \<and>
         (\<not> etag \<and> redirect \<longrightarrow> result = stored (Some [])) \<and>
         (\<not> etag \<and> \<not> redirect \<and> hmem ''date'' response_headers \<and> (max_age \<or> expires)
            \<longrightarrow> result = stored response_body) \<and>
         (\<not> etag \<and> \<not> redirect \<and>
            (\<not> hmem ''date'' response_headers \<or>
             (\<not> max_age \<and> \<not> hmem ''expires'' response_headers))
            \<longrightarrow> result = (Inr (), cache)))"
proof -
  let ?cc = "parse_cache_control response_headers"
  let ?stored = "\<lambda>b. (Inr () :: error + unit, cache(key := Some
                      (dumps (serializer self) request_headers response_headers
                         response_status_code response_http_version
                         response_reason_phrase b)))"
  have result:
    "cache_response self cache request_url request_headers response_headers
       response_status_code response_reason_phrase response_http_version response_body =
     (case body_to_store self ?cc response_headers response_status_code response_body of
        Inl e \<Rightarrow> (Inl e, cache)
      | Inr None \<Rightarrow> (Inr (), cache)
      | Inr (Some b) \<Rightarrow> ?stored b)"
    using assms by (simp add: cache_response_def Let_def)
  have positive:
    "max_age_positive ?cc = Inr (\<exists>n. ?cc ''max-age'' = Some (Some n) \<and> n > 0)"
    using max_age_is_int[of response_headers]
    by (auto simp add: max_age_positive_def split: option.splits)
  have redirect:
    "(response_status_code \<in> set PERMANENT_REDIRECT_STATUSES) =
     (response_status_code = 301 \<or> response_status_code = 308)"
    by (auto simp add: PERMANENT_REDIRECT_STATUSES_def)
  show ?thesis
    unfolding Let_def result body_to_store_def positive redirect
    by (auto simp add: hmem_def hget_default_def split: bool.splits)
qed

text \<open>
  A 200 response with the date \<open>date_1000\<close> and \<open>max-age=60\<close>, without an ETag,
  and with the body \<open>hi\<close>: it is stored with that body.
\<close>

theorem cache_response_store_decision_witness:
  "cache_response (example_controller stored_200) Map.empty example_url []
     [(''Date'', date_1000), (''Cache-Control'', ''max-age=60'')] 200 ''OK'' ''HTTP/1.1''
     (Some ''hi'') = (Inr (), Map.empty(example_key := Some ''hi''))"
proof -
  let ?hs = "[(''Date'', date_1000), (''Cache-Control'', ''max-age=60'')]"
  have h1: "200 \<in> set (cacheable_status_codes (example_controller stored_200))"
    by (simp add: example_eval)
  have h2: "content_length_mismatch ?hs (Some ''hi'') = Inr False"
    by (simp add: content_length_mismatch_def header_eval string_eval)
  have h4: "\<not> dmem ''no-store'' (parse_cache_control [])"
    by (simp add: parse_cache_control_no_header hget_Nil dmem_def)
  have h5: "\<not> dmem ''no-store'' (parse_cache_control ?hs)"
    by (simp add: parse_eval header_eval string_eval)
  have h6: "CHR ''*'' \<notin> set (hget_default ?hs ''vary'' [])"
    by (simp add: header_eval string_eval)
  have etag: "\<not> hmem ''etag'' ?hs"
    by (simp add: header_eval string_eval)
  have date: "hmem ''date'' ?hs"
    by (simp add: header_eval string_eval)
  have max_age: "parse_cache_control ?hs ''max-age'' = Some (Some 60)"
    by (simp add: parse_eval header_eval string_eval)
  have dumps: "dumps (serializer (example_controller stored_200)) [] ?hs 200 ''HTTP/1.1''
                 ''OK'' (Some ''hi'') = ''hi''"
    by (simp add: example_eval)
  show ?thesis
    using cache_response_store_decision
            [where cache = Map.empty and key = example_key
               and response_reason_phrase = "''OK''"
               and response_http_version = "''HTTP/1.1''",
             OF h1 h2 cache_url_example h4 h5 h6]
    by (simp add: Let_def etag date max_age dumps)
qed

text \<open>
  C8, as stated, fails: the claim is about every call whose request or response
  directives contain \<open>no-store\<close>. The status and Content-Length checks come first: a
  200 response with \<open>no-store\<close> whose \<open>Content-Length: 5\<close> is not the length of its
  body \<open>x\<close> returns at the length check, and the entry stored under the key stays.
\<close>

theorem cache_response_no_store_after_length_check:
  "dmem ''no-store''
     (parse_cache_control [(''Content-Length'', ''5''), (''Cache-Control'', ''no-store'')]) \<and>
   cache_response (example_controller stored_200) example_cache example_url []
     [(''Content-Length'', ''5''), (''Cache-Control'', ''no-store'')] 200 ''OK'' ''HTTP/1.1''
     (Some ''x'') = (Inr (), example_cache) \<and>
   example_cache example_key = Some ''hello''"
proof -
  let ?hs = "[(''Content-Length'', ''5''), (''Cache-Control'', ''no-store'')]"
  have a: "dmem ''no-store'' (parse_cache_control ?hs)"
    by (simp add: parse_eval header_eval string_eval)
  have cl: "content_length_mismatch ?hs (Some ''x'') = Inr True"
    by (simp add: content_length_mismatch_def header_eval string_eval)
  have b: "cache_response (example_controller stored_200) example_cache example_url []
     ?hs 200 ''OK'' ''HTTP/1.1'' (Some ''x'') = (Inr (), example_cache)"
    by (simp add: cache_response_def cl example_controller_def init_controller_def)
  have c: "example_cache example_key = Some ''hello''"
    by (simp add: example_cache_def)
  from a b c show ?thesis by blast
qed

text \<open>
  C8, amended. For every call that passes the status and Content-Length checks (the
  condition of the length check is evaluated without raising and is false), with an
  absolute URL, and whose request or response directives contain \<open>no-store\<close>: the
  call returns without raising, the entry under the request's key is deleted when the
  backend holds non-empty bytes there, and the backend is otherwise unchanged, so
  nothing new is stored.
\<close>

theorem cache_response_no_store:
  assumes "response_status_code \<in> set (cacheable_status_codes self)"
      and "content_length_mismatch response_headers response_body = Inr False"
      and "cache_url request_url = Inr key"
      and "dmem ''no-store'' (parse_cache_control request_headers) \<or>
           dmem ''no-store'' (parse_cache_control response_headers)"
  shows "cache_response self cache request_url request_headers response_headers
           response_status_code response_reason_phrase response_http_version
           response_body =
         (Inr (), if truthy (cache key) then cache(key := None) else cache)"
  using assms by (auto simp add: cache_response_def Let_def)

text \<open>
  A 200 response with \<open>no-store\<close>, \<open>Date\<close> and \<open>max-age=60\<close>: the entry \<open>hello\<close>
  stored under the key is deleted and nothing takes its place.
\<close>

theorem cache_response_no_store_witness:
  "cache_response (example_controller stored_200) example_cache example_url []
     [(''Date'', date_1000), (''Cache-Control'', ''no-store, max-age=60'')] 200 ''OK''
     ''HTTP/1.1'' (Some ''hi'') = (Inr (), example_cache(example_key := None))"
proof -
  let ?hs = "[(''Date'', date_1000), (''Cache-Control'', ''no-store, max-age=60'')]"
  have h1: "200 \<in> set (cacheable_status_codes (example_controller stored_200))"
    by (simp add: example_eval)
  have h2: "content_length_mismatch ?hs (Some ''hi'') = Inr False"
    by (simp add: content_length_mismatch_def header_eval string_eval)
  have h4: "dmem ''no-store'' (parse_cache_control []) \<or>
            dmem ''no-store'' (parse_cache_control ?hs)"
    by (simp add: parse_eval header_eval string_eval)
  have t: "truthy (example_cache example_key)"
    by (simp add: example_cache_def)
  show ?thesis
    using cache_response_no_store
            [where cache = example_cache and key = example_key
               and response_reason_phrase = "''OK''"
               and response_http_version = "''HTTP/1.1''",
             OF h1 h2 cache_url_example h4]
    by (simp add: t)
qed

end
